theory Spec2Isabelle
  imports Main "HOL-Library.Word"
begin

unbundle bit_operations_syntax

section \<open>Shared data: wire messages, pieces and peers\<close>

text \<open>
  A shallow embedding of the per-torrent core of the client: the piece-download state
  machine (\<^verbatim>\<open>internal/downloader/piecedownloader\<close>), the metadata downloader
  (\<^verbatim>\<open>internal/infodownloader\<close>), the peer connection (\<^verbatim>\<open>torrent/internal/peerconn\<close>)
  and, of the engine in \<^verbatim>\<open>session/run.go\<close> and \<^verbatim>\<open>session/session.go\<close>, the regular
  unchoke tick and the functions that dial, register and remove peers, with the cases
  of the event loop that accept connections and take handshake results.

  Go's \<^verbatim>\<open>[]byte\<close> is a \<open>byte list\<close>; a slice that may be \<^verbatim>\<open>nil\<close> is an
  \<open>option\<close>. \<^verbatim>\<open>uint32\<close> indices that are only compared and used as subscripts are
  \<open>nat\<close>; where the source does arithmetic on them they are \<open>32 word\<close>.
\<close>

type_synonym byte = "8 word"

text \<open>
  \<^verbatim>\<open>piece.Block\<close> and \<^verbatim>\<open>piece.Piece\<close>: the declarations lie outside the
  embedded files; the fields are the ones the downloader reads (\<^verbatim>\<open>Index\<close>, \<^verbatim>\<open>Begin\<close>,
  \<^verbatim>\<open>Length\<close>, \<^verbatim>\<open>Blocks\<close>).
\<close>

record piece_Block =
  Block_Index :: nat
  Block_Begin :: nat
  Block_Length :: nat

record piece_Piece =
  Piece_Index :: nat
  Piece_Length :: nat
  Piece_Blocks :: "piece_Block list"

text \<open>
  \<^verbatim>\<open>peer.Request\<close>, the request that a reject message names. The struct is declared
  outside the embedded files. \<^verbatim>\<open>Run\<close> reads \<^verbatim>\<open>req.Piece.Index\<close>, so \<^verbatim>\<open>Piece\<close> is the
  \<^verbatim>\<open>*piece.Piece\<close> of the request; \<open>Req_Begin\<close> and \<open>Req_Length\<close> are the other two
  parts of a request as the downloader sends it with \<^verbatim>\<open>SendRequest\<close> (piece index, begin,
  length). No embedded function reads them.
\<close>

record peer_Request =
  Req_Piece :: piece_Piece
  Req_Begin :: nat
  Req_Length :: nat

text \<open>
  The messages the engine and the downloaders put on a peer's outbound queue.
  \<open>ExtensionHandshake m\<close> is the extension message with the handshake payload that
  advertises the metadata size \<open>m\<close>; \<open>ExtensionMetadataRequest id i\<close> is the extension
  message with \<^verbatim>\<open>ExtendedMessageID\<close> \<open>id\<close> whose payload is the metadata message of type
  request for piece \<open>i\<close>.
\<close>

datatype Message =
    ChokeMessage
  | UnchokeMessage
  | HaveMessage nat
  | HaveAllMessage
  | HaveNoneMessage
  | BitfieldMessage "byte list"
  | RequestMessage nat nat nat
  | ExtensionHandshake "32 word"
  | ExtensionMetadataRequest "8 word" "32 word"

text \<open>
  \<^verbatim>\<open>peer.Peer\<close> as the engine and the piece downloader use it. The struct is declared
  outside the embedded files; the fields are those read or written in \<^verbatim>\<open>run.go\<close>,
  \<^verbatim>\<open>session.go\<close> and \<^verbatim>\<open>piecedownloader.go\<close> (the counter keeps the source's
  spelling). \<open>sent\<close> is the outbound queue filled by \<^verbatim>\<open>SendMessage\<close> and
  \<^verbatim>\<open>SendRequest\<close>, \<open>closeCalls\<close> counts the calls of \<^verbatim>\<open>Close\<close>.
  \<open>AllowedFast\<close> is the allowed-fast set of the specification's peer entry; no embedded
  function reads it. \<open>MetadataSize\<close> and \<open>MetadataID\<close> are
  \<^verbatim>\<open>ExtensionHandshake.MetadataSize\<close> and the entry of \<^verbatim>\<open>ExtensionHandshake.M\<close> for
  the metadata extension.
\<close>

record peer_Peer =
  ID :: nat
  IP :: string
  FastExtension :: bool
  AllowedFast :: "nat set"
  MetadataSize :: "32 word"
  MetadataID :: "8 word"
  AmChoking :: bool
  PeerInterested :: bool
  OptimisticUnchoked :: bool
  BytesDownlaodedInChokePeriod :: int
  BytesUploadedInChokePeriod :: int
  Downloading :: bool
  sent :: "Message list"
  closeCalls :: nat

definition SendMessage :: "Message \<Rightarrow> peer_Peer \<Rightarrow> peer_Peer" where
  "SendMessage msg pe = pe\<lparr>sent := sent pe @ [msg]\<rparr>"

definition Peer_Close :: "peer_Peer \<Rightarrow> peer_Peer" where
  "Peer_Close pe = pe\<lparr>closeCalls := Suc (closeCalls pe)\<rparr>"

section \<open>The piece downloader\<close>

text \<open>
  \<^verbatim>\<open>piecedownloader.block\<close>: the embedded \<^verbatim>\<open>*piece.Block\<close>, the \<^verbatim>\<open>requested\<close>
  flag and the received \<^verbatim>\<open>data\<close> (\<open>None\<close> is Go's \<^verbatim>\<open>nil\<close>).
\<close>

record block =
  Block :: piece_Block
  requested :: bool
  data :: "byte list option"

text \<open>
  The goroutine of \<^verbatim>\<open>Run\<close> is either still in its loop, has returned, hangs on a
  receive that nobody can serve, or has panicked on a subscript out of range.
\<close>

datatype run_status = Running | Returned | Blocked | Panicked

text \<open>
  \<^verbatim>\<open>PieceDownloader\<close>. The token channel \<^verbatim>\<open>limiter\<close> is \<open>None\<close> when it is \<^verbatim>\<open>nil\<close>
  and \<open>Some n\<close> when it holds \<open>n\<close> tokens (its capacity is \<^verbatim>\<open>maxQueuedBlocks\<close>).
  \<open>DoneC\<close> and \<open>ErrC\<close> list the values sent on the two result channels.
\<close>

record PieceDownloader =
  Piece :: piece_Piece
  Peer :: peer_Peer
  blocks :: "block list"
  limiter :: "nat option"
  DoneC :: "byte list list"
  ErrC :: "string list"
  status :: run_status

definition maxQueuedBlocks :: nat where
  "maxQueuedBlocks = 10"

definition PieceDownloader_New :: "piece_Piece \<Rightarrow> peer_Peer \<Rightarrow> PieceDownloader" where
  "PieceDownloader_New pi pe =
     \<lparr>Piece = pi, Peer = pe,
      blocks = map (\<lambda>b. \<lparr>Block = b, requested = False, data = None\<rparr>) (Piece_Blocks pi),
      limiter = Some 0, DoneC = [], ErrC = [], status = Running\<rparr>"

text \<open>
  \<^verbatim>\<open>nextBlock\<close>: the first block whose \<^verbatim>\<open>requested\<close> flag is clear gets the flag set;
  the result is its position and the updated array, \<open>None\<close> for Go's \<^verbatim>\<open>nil\<close>.
\<close>

fun nextBlock :: "block list \<Rightarrow> (nat \<times> block list) option" where
  "nextBlock [] = None"
| "nextBlock (b # bs) =
     (if \<not> requested b then Some (0, b\<lparr>requested := True\<rparr> # bs)
      else (case nextBlock bs of
              None \<Rightarrow> None
            | Some (i, bs') \<Rightarrow> Some (Suc i, b # bs')))"

fun allDone :: "block list \<Rightarrow> bool" where
  "allDone [] = True"
| "allDone (b # bs) = (if data b = None then False else allDone bs)"

fun assembleBlocks :: "block list \<Rightarrow> byte list" where
  "assembleBlocks [] = []"
| "assembleBlocks (b # bs) = (case data b of None \<Rightarrow> [] | Some x \<Rightarrow> x) @ assembleBlocks bs"

text \<open>
  The inputs of the \<^verbatim>\<open>select\<close> in \<^verbatim>\<open>Run\<close>, one constructor per channel:
  \<open>Limiter err\<close> is a token accepted by \<^verbatim>\<open>limiter\<close>, with the error that
  \<^verbatim>\<open>SendRequest\<close> returns if a request is sent; \<open>PieceC b dat\<close> a received
  \<^verbatim>\<open>peer.Piece\<close> with its two fields that \<^verbatim>\<open>Run\<close> reads, \<^verbatim>\<open>p.Block\<close> and \<^verbatim>\<open>p.Data\<close>
  (\<open>None\<close> is a \<^verbatim>\<open>nil\<close> slice); \<open>RejectC req\<close> a received reject.
\<close>

datatype event =
    Limiter "string option"
  | PieceC piece_Block "byte list option"
  | RejectC peer_Request
  | ChokeC
  | UnchokeC
  | StopC

definition SendRequest :: "nat \<Rightarrow> nat \<Rightarrow> nat \<Rightarrow> peer_Peer \<Rightarrow> peer_Peer" where
  "SendRequest i b l pe = SendMessage (RequestMessage i b l) pe"

text \<open>The \<^verbatim>\<open>case d.limiter <- struct{}{}\<close> branch, after the token went in.\<close>

definition on_limiter :: "string option \<Rightarrow> nat \<Rightarrow> PieceDownloader \<Rightarrow> PieceDownloader" where
  "on_limiter err n d =
     (let d1 = d\<lparr>limiter := Some (Suc n)\<rparr> in
      case nextBlock (blocks d1) of
        None \<Rightarrow> d1\<lparr>limiter := None\<rparr>
      | Some (i, bs) \<Rightarrow>
          (let d2 = d1\<lparr>blocks := bs\<rparr>; b = Block (bs ! i) in
           case err of
             None \<Rightarrow> d2\<lparr>Peer := SendRequest (Piece_Index (Piece d2)) (Block_Begin b)
                                  (Block_Length b) (Peer d2)\<rparr>
           | Some e \<Rightarrow> d2\<lparr>ErrC := ErrC d2 @ [e], status := Returned\<rparr>))"

text \<open>
  The \<^verbatim>\<open>case p := <-d.PieceC\<close> branch. The receive \<^verbatim>\<open><-d.limiter\<close> takes a token
  back; on an empty channel it waits for a sender, and the only sender is this goroutine.
  \<open>store_data\<close> is the rest of the branch: \<^verbatim>\<open>b.data = p.Data\<close> and the
  \<^verbatim>\<open>allDone\<close> test with the send on \<^verbatim>\<open>DoneC\<close>.
\<close>

definition store_data :: "nat \<Rightarrow> byte list option \<Rightarrow> PieceDownloader \<Rightarrow> PieceDownloader" where
  "store_data i dat d =
     (let d2 = d\<lparr>blocks := (blocks d)[i := (blocks d ! i)\<lparr>data := dat\<rparr>]\<rparr> in
      if allDone (blocks d2)
      then d2\<lparr>DoneC := DoneC d2 @ [assembleBlocks (blocks d2)], status := Returned\<rparr>
      else d2)"

definition on_piece :: "piece_Block \<Rightarrow> byte list option \<Rightarrow> PieceDownloader \<Rightarrow> PieceDownloader" where
  "on_piece pb dat d =
     (let i = Block_Index pb in
      if length (blocks d) \<le> i then d\<lparr>status := Panicked\<rparr>
      else
        (let b = blocks d ! i in
         if requested b \<and> data b = None \<and> limiter d \<noteq> None
         then (case limiter d of
                 Some (Suc n) \<Rightarrow> store_data i dat (d\<lparr>limiter := Some n\<rparr>)
               | _ \<Rightarrow> d\<lparr>status := Blocked\<rparr>)
         else store_data i dat d))"

text \<open>
  The \<^verbatim>\<open>case req := <-d.RejectC\<close> branch. The subscript of \<^verbatim>\<open>d.blocks\<close> is
  \<^verbatim>\<open>req.Piece.Index\<close>, both in the test and in the assignment.
\<close>

definition on_reject :: "peer_Request \<Rightarrow> PieceDownloader \<Rightarrow> PieceDownloader" where
  "on_reject req d =
     (if length (blocks d) \<le> Piece_Index (Req_Piece req) then d\<lparr>status := Panicked\<rparr>
      else if \<not> requested (blocks d ! Piece_Index (Req_Piece req))
      then d\<lparr>Peer := Peer_Close (Peer d),
             ErrC := ErrC d @ [''received invalid reject message''],
             status := Returned\<rparr>
      else d\<lparr>blocks := (blocks d)[Piece_Index (Req_Piece req) :=
                          (blocks d ! Piece_Index (Req_Piece req))\<lparr>requested := False\<rparr>]\<rparr>)"

definition on_choke :: "PieceDownloader \<Rightarrow> PieceDownloader" where
  "on_choke d =
     d\<lparr>blocks := map (\<lambda>b. if data b = None \<and> requested b then b\<lparr>requested := False\<rparr> else b)
                    (blocks d),
       limiter := None\<rparr>"

definition on_unchoke :: "PieceDownloader \<Rightarrow> PieceDownloader" where
  "on_unchoke d = d\<lparr>limiter := Some 0\<rparr>"

text \<open>
  One turn of the loop of \<^verbatim>\<open>Run\<close>. A goroutine that is no longer in the loop takes no
  input; a token is accepted only by a non-nil \<^verbatim>\<open>limiter\<close> that is not full.
\<close>

definition Run_step :: "PieceDownloader \<Rightarrow> event \<Rightarrow> PieceDownloader" where
  "Run_step d e =
     (if status d \<noteq> Running then d
      else case e of
        Limiter err \<Rightarrow>
          (case limiter d of
             None \<Rightarrow> d
           | Some n \<Rightarrow> if n < maxQueuedBlocks then on_limiter err n d else d)
      | PieceC pb dat \<Rightarrow> on_piece pb dat d
      | RejectC req \<Rightarrow> on_reject req d
      | ChokeC \<Rightarrow> on_choke d
      | UnchokeC \<Rightarrow> on_unchoke d
      | StopC \<Rightarrow> d\<lparr>status := Returned\<rparr>)"

fun Run :: "PieceDownloader \<Rightarrow> event list \<Rightarrow> PieceDownloader" where
  "Run d [] = d"
| "Run d (e # es) = Run (Run_step d e) es"

text \<open>The blocks that are marked requested and have no data yet.\<close>

definition outstanding :: "PieceDownloader \<Rightarrow> nat" where
  "outstanding d = length (filter (\<lambda>b. requested b \<and> data b = None) (blocks d))"




section \<open>The metadata downloader\<close>

text \<open>
  \<^verbatim>\<open>infodownloader.InfoDownloader\<close>. \<^verbatim>\<open>nextBlockIndex\<close> is a \<^verbatim>\<open>uint32\<close> that the loop
  increments, \<^verbatim>\<open>requested\<close> is the key set of a \<^verbatim>\<open>map[uint32]struct{}\<close> (its
  \<^verbatim>\<open>len\<close> is the cardinality), \<^verbatim>\<open>blocks\<close> holds the size of each metadata block.
\<close>

definition blockSize :: "32 word" where
  "blockSize = 16 * 1024"

record info_block =
  block_size :: "32 word"

record InfoDownloader =
  info_Peer :: peer_Peer
  info_Bytes :: "byte list"
  info_blocks :: "info_block list"
  info_requested :: "32 word set"
  nextBlockIndex :: "32 word"

definition createBlocks :: "peer_Peer \<Rightarrow> info_block list" where
  "createBlocks pe =
     (let numBlocks0 = MetadataSize pe div blockSize;
          md = MetadataSize pe mod blockSize;
          numBlocks = (if md \<noteq> 0 then numBlocks0 + 1 else numBlocks0);
          bs = replicate (unat numBlocks) \<lparr>block_size = blockSize\<rparr>
      in if md \<noteq> 0 \<and> 0 < length bs then bs[length bs - 1 := \<lparr>block_size = md\<rparr>] else bs)"

definition InfoDownloader_New :: "peer_Peer \<Rightarrow> InfoDownloader" where
  "InfoDownloader_New pe =
     \<lparr>info_Peer = pe, info_Bytes = replicate (unat (MetadataSize pe)) 0,
      info_blocks = createBlocks pe, info_requested = {}, nextBlockIndex = 0\<rparr>"

text \<open>
  The loop of \<^verbatim>\<open>RequestBlocks\<close>: its condition compares \<^verbatim>\<open>nextBlockIndex\<close> with
  \<^verbatim>\<open>uint32(len(d.blocks))\<close> and \<^verbatim>\<open>len(d.requested)\<close> with the \<^verbatim>\<open>int\<close> argument; the
  body sends the request and records the index, the post statement increments the index.
\<close>

definition RequestBlocks_cond :: "int \<Rightarrow> InfoDownloader \<Rightarrow> bool" where
  "RequestBlocks_cond queueLength d \<longleftrightarrow>
     nextBlockIndex d < (of_nat (length (info_blocks d)) :: 32 word) \<and>
     int (card (info_requested d)) < queueLength"

definition RequestBlocks_body :: "InfoDownloader \<Rightarrow> InfoDownloader" where
  "RequestBlocks_body d =
     d\<lparr>info_Peer := SendMessage (ExtensionMetadataRequest (MetadataID (info_Peer d))
                                  (nextBlockIndex d)) (info_Peer d),
       info_requested := insert (nextBlockIndex d) (info_requested d),
       nextBlockIndex := nextBlockIndex d + 1\<rparr>"

function RequestBlocks :: "int \<Rightarrow> InfoDownloader \<Rightarrow> InfoDownloader" where
  "RequestBlocks queueLength d =
     (if RequestBlocks_cond queueLength d
      then RequestBlocks queueLength (RequestBlocks_body d)
      else d)"
  by pat_completeness auto
termination
proof (relation "measure (\<lambda>(k, d). unat (of_nat (length (info_blocks d)) :: 32 word)
                                   - unat (nextBlockIndex d))")
  show "wf (measure (\<lambda>(k, d). unat (of_nat (length (info_blocks d)) :: 32 word)
                                   - unat (nextBlockIndex d)))"
    by simp
next
  fix queueLength :: int and d :: InfoDownloader
  assume "RequestBlocks_cond queueLength d"
  then have lt: "nextBlockIndex d < (of_nat (length (info_blocks d)) :: 32 word)"
    by (simp add: RequestBlocks_cond_def)
  then have less: "unat (nextBlockIndex d) < unat (of_nat (length (info_blocks d)) :: 32 word)"
    by (simp add: word_less_nat_alt)
  moreover have "unat (of_nat (length (info_blocks d)) :: 32 word) < 2 ^ 32"
    using unsigned_less[of "of_nat (length (info_blocks d)) :: 32 word"] by simp
  ultimately have "unat (nextBlockIndex d) + unat (1::32 word) < 2 ^ LENGTH(32)" by simp
  then have "unat (nextBlockIndex d + 1) = unat (nextBlockIndex d) + unat (1::32 word)"
    by (simp only: unat_add_lem)
  then have "unat (nextBlockIndex d + 1) = Suc (unat (nextBlockIndex d))" by simp
  with less show "((queueLength, RequestBlocks_body d), (queueLength, d))
      \<in> measure (\<lambda>(k, d). unat (of_nat (length (info_blocks d)) :: 32 word)
                                   - unat (nextBlockIndex d))"
    by (simp add: RequestBlocks_body_def)
qed

declare RequestBlocks.simps [simp del]

text \<open>
  \<open>issued c n\<close> lists \<open>n\<close> consecutive indices from the cursor \<open>c\<close>: \<open>c\<close>, \<open>c + 1\<close>, ...
  \<open>RB_post k d d' n\<close> relates the state \<open>d\<close> before the loop to a state \<open>d'\<close> after
  \<open>n\<close> iterations: what was sent and recorded, and how many iterations there can be.
\<close>

definition issued :: "32 word \<Rightarrow> nat \<Rightarrow> 32 word list" where
  "issued c n = map (\<lambda>j. c + of_nat j) [0..<n]"

definition RB_post :: "int \<Rightarrow> InfoDownloader \<Rightarrow> InfoDownloader \<Rightarrow> nat \<Rightarrow> bool" where
  "RB_post k d d' n \<longleftrightarrow>
     nextBlockIndex d' = nextBlockIndex d + of_nat n \<and>
     (n = 0 \<or> unat (nextBlockIndex d) + n \<le> unat (of_nat (length (info_blocks d)) :: 32 word)) \<and>
     sent (info_Peer d') = sent (info_Peer d) @
        map (ExtensionMetadataRequest (MetadataID (info_Peer d))) (issued (nextBlockIndex d) n) \<and>
     info_requested d' = info_requested d \<union> set (issued (nextBlockIndex d) n) \<and>
     info_blocks d' = info_blocks d \<and> info_Bytes d' = info_Bytes d \<and>
     n \<le> nat (k - int (card (info_requested d)))
           + card (info_requested d \<inter> {i. nextBlockIndex d \<le> i}) \<and>
     (info_requested d \<subseteq> {i. i < nextBlockIndex d} \<longrightarrow>
        n = min (unat (of_nat (length (info_blocks d)) :: 32 word) - unat (nextBlockIndex d))
                (nat (k - int (card (info_requested d)))))"

section \<open>The peer connection\<close>

text \<open>
  \<^verbatim>\<open>peerconn.Peer\<close> with its two signal channels: \<open>closeC\<close> and \<open>closedC\<close> are true once
  the channel is closed. \<^verbatim>\<open>Run\<close> starts the reader and the writer, waits in its
  \<^verbatim>\<open>select\<close>, closes the connection, waits for the task or tasks still running and, on
  return, closes \<^verbatim>\<open>closedC\<close>; \<open>pc\<close> is the place \<^verbatim>\<open>Run\<close> has reached. \<^verbatim>\<open>Close\<close> closes
  \<^verbatim>\<open>closeC\<close> and then waits for \<^verbatim>\<open>closedC\<close>: \<open>waiting\<close> counts the calls that are in
  that wait, \<open>returned\<close> the calls that have returned. Closing a closed channel panics.
\<close>

datatype run_pc =
  RunNotStarted | RunSelect | RunAwaitBoth | RunAwaitReader | RunAwaitWriter | RunDone

record PeerConn =
  closeC :: bool
  closedC :: bool
  connCloses :: nat
  readerDone :: bool
  writerDone :: bool
  pc :: run_pc
  waiting :: nat
  returned :: nat
  panicked :: bool

definition PeerConn_New :: PeerConn where
  "PeerConn_New =
     \<lparr>closeC = False, closedC = False, connCloses = 0, readerDone = False,
      writerDone = False, pc = RunNotStarted, waiting = 0, returned = 0, panicked = False\<rparr>"

text \<open>
  The steps of the goroutines, interleaved in any order: a call of \<^verbatim>\<open>Close\<close> executes
  \<^verbatim>\<open>close(p.closeC)\<close>; a waiting call returns; \<^verbatim>\<open>Run\<close> starts; the reader or the
  writer task exits (on \<^verbatim>\<open>closeC\<close> or on an I/O error, so at any time after its start);
  the \<^verbatim>\<open>select\<close> of \<^verbatim>\<open>Run\<close> takes one of its three cases; \<^verbatim>\<open>Run\<close> gets past a
  receive from a done channel. A step that is not enabled leaves the state as it is, and
  after a panic nothing runs.
\<close>

datatype action =
    CallClose
  | CloseReturns
  | StartRun
  | ReaderExits
  | WriterExits
  | SelectCloseC
  | SelectReaderDone
  | SelectWriterDone
  | RunProceeds

definition run_proceeds :: "PeerConn \<Rightarrow> PeerConn" where
  "run_proceeds p =
     (case pc p of
        RunAwaitBoth \<Rightarrow> if readerDone p then p\<lparr>pc := RunAwaitWriter\<rparr> else p
      | RunAwaitWriter \<Rightarrow> if writerDone p then p\<lparr>pc := RunDone, closedC := True\<rparr> else p
      | RunAwaitReader \<Rightarrow> if readerDone p then p\<lparr>pc := RunDone, closedC := True\<rparr> else p
      | _ \<Rightarrow> p)"

definition peer_step :: "PeerConn \<Rightarrow> action \<Rightarrow> PeerConn" where
  "peer_step p a =
     (if panicked p then p
      else case a of
        CallClose \<Rightarrow>
          if closeC p then p\<lparr>panicked := True\<rparr>
          else p\<lparr>closeC := True, waiting := Suc (waiting p)\<rparr>
      | CloseReturns \<Rightarrow>
          if closedC p \<and> 0 < waiting p
          then p\<lparr>waiting := waiting p - 1, returned := Suc (returned p)\<rparr> else p
      | StartRun \<Rightarrow> if pc p = RunNotStarted then p\<lparr>pc := RunSelect\<rparr> else p
      | ReaderExits \<Rightarrow>
          if pc p \<noteq> RunNotStarted \<and> \<not> readerDone p then p\<lparr>readerDone := True\<rparr> else p
      | WriterExits \<Rightarrow>
          if pc p \<noteq> RunNotStarted \<and> \<not> writerDone p then p\<lparr>writerDone := True\<rparr> else p
      | SelectCloseC \<Rightarrow>
          if pc p = RunSelect \<and> closeC p
          then p\<lparr>connCloses := Suc (connCloses p), pc := RunAwaitBoth\<rparr> else p
      | SelectReaderDone \<Rightarrow>
          if pc p = RunSelect \<and> readerDone p
          then p\<lparr>connCloses := Suc (connCloses p), pc := RunAwaitWriter\<rparr> else p
      | SelectWriterDone \<Rightarrow>
          if pc p = RunSelect \<and> writerDone p
          then p\<lparr>connCloses := Suc (connCloses p), pc := RunAwaitReader\<rparr> else p
      | RunProceeds \<Rightarrow> run_proceeds p)"

fun peer_run :: "PeerConn \<Rightarrow> action list \<Rightarrow> PeerConn" where
  "peer_run p [] = p"
| "peer_run p (a # as) = peer_run (peer_step p a) as"

definition peer_inv :: "PeerConn \<Rightarrow> bool" where
  "peer_inv p \<longleftrightarrow>
     (closedC p \<longleftrightarrow> pc p = RunDone) \<and>
     (pc p = RunDone \<longrightarrow> readerDone p \<and> writerDone p) \<and>
     (pc p = RunAwaitWriter \<longrightarrow> readerDone p) \<and>
     (pc p = RunAwaitReader \<longrightarrow> writerDone p) \<and>
     (pc p \<noteq> RunNotStarted \<and> pc p \<noteq> RunSelect \<longrightarrow> 0 < connCloses p) \<and>
     (0 < returned p \<longrightarrow> closedC p) \<and>
     (closeC p \<longleftrightarrow> waiting p + returned p = 1) \<and>
     waiting p + returned p \<le> 1 \<and>
     (panicked p \<longrightarrow> closeC p)"

text \<open>
  An orderly shutdown: \<^verbatim>\<open>Run\<close> is started, \<^verbatim>\<open>Close\<close> is called, \<^verbatim>\<open>Run\<close> closes the
  connection, both tasks exit, \<^verbatim>\<open>Run\<close> returns and the call of \<^verbatim>\<open>Close\<close> returns.
\<close>

definition example_shutdown :: "action list" where
  "example_shutdown =
     [StartRun, CallClose, SelectCloseC, ReaderExits, WriterExits, RunProceeds, RunProceeds,
      CloseReturns]"

section \<open>The engine\<close>

subsection \<open>The bitfield\<close>

text \<open>
  Modelled from the spec: \<^verbatim>\<open>bitfield.Bitfield\<close> (package \<^verbatim>\<open>internal/bitfield\<close> is not
  among the embedded files). The specification's data model: a P-bit vector, bytes in big-endian
  bit order, bit 0 the most significant bit of byte 0. \<open>bf_len\<close> is P; bit \<open>i\<close> lives in
  byte \<open>i div 8\<close> at position \<open>7 - i mod 8\<close>. \<open>bf_Test\<close>, \<open>bf_Count\<close> and \<open>bf_All\<close>
  stand for the methods \<^verbatim>\<open>Test\<close>, \<^verbatim>\<open>Count\<close> and \<^verbatim>\<open>All\<close>.
\<close>

record Bitfield =
  bf_bytes :: "byte list"
  bf_len :: nat

text \<open>Modelled from the spec: \<^verbatim>\<open>Bitfield.Test\<close>, bit \<open>i\<close> counted from the most significant
  bit of byte 0.\<close>

definition bf_Test :: "Bitfield \<Rightarrow> nat \<Rightarrow> bool" where
  "bf_Test bf i \<longleftrightarrow> bit (bf_bytes bf ! (i div 8)) (7 - i mod 8)"

text \<open>Modelled from the spec: \<^verbatim>\<open>Bitfield.Count\<close>, the number of set bits among the P.\<close>

definition bf_Count :: "Bitfield \<Rightarrow> nat" where
  "bf_Count bf = length (filter (bf_Test bf) [0..<bf_len bf])"

text \<open>Modelled from the spec: \<^verbatim>\<open>Bitfield.All\<close>, all P bits are set.\<close>

definition bf_All :: "Bitfield \<Rightarrow> bool" where
  "bf_All bf \<longleftrightarrow> bf_Count bf = bf_len bf"

subsection \<open>The state of the event loop\<close>

text \<open>
  The fields of \<^verbatim>\<open>torrent\<close> that the functions below read or write. A \<^verbatim>\<open>*peer.Peer\<close> is
  a reference into \<open>heap\<close>; a handshaker is a reference whose connection address is kept in
  \<open>handshakerIP\<close>; both are allocated from \<open>nextRef\<close>. A Go map used as a set
  (\<^verbatim>\<open>map[K]struct{}\<close>) is a set, and its \<^verbatim>\<open>len\<close> the cardinality. A map from peers to
  piece downloaders keeps the index of the downloader's piece. \<open>infoSize\<close> is
  \<^verbatim>\<open>t.info.InfoSize\<close> when \<^verbatim>\<open>t.info\<close> is not nil, \<open>needMorePeers\<close> is the value last
  passed to the announcers, and \<open>closedConns\<close> lists the addresses of the connections the
  loop closed itself. Logging, peer exchange and the calls into the piece picker touch none
  of these fields and are left out.
\<close>

type_synonym peer_ref = nat

record Config =
  UnchokedPeers :: int
  MaxPeerDial :: int
  MaxPeerAccept :: int

record Conn =
  conn_ID :: nat
  conn_IP :: string
  conn_FastExtension :: bool

record torrent =
  config :: Config
  infoSize :: "32 word option"
  bitfield :: "Bitfield option"
  heap :: "peer_ref \<Rightarrow> peer_Peer"
  nextRef :: nat
  peers :: "peer_ref set"
  incomingPeers :: "peer_ref set"
  outgoingPeers :: "peer_ref set"
  peersSnubbed :: "peer_ref set"
  pieceDownloaders :: "peer_ref \<Rightarrow> nat option"
  pieceDownloadersSnubbed :: "peer_ref \<Rightarrow> nat option"
  pieceDownloadersChoked :: "peer_ref \<Rightarrow> nat option"
  infoDownloaders :: "peer_ref set"
  infoDownloadersSnubbed :: "peer_ref set"
  peerIDs :: "nat set"
  connectedPeerIPs :: "string set"
  incomingHandshakers :: "nat set"
  outgoingHandshakers :: "nat set"
  handshakerIP :: "nat \<Rightarrow> string"
  addrList :: "string list"
  completed :: bool
  needMorePeers :: bool
  closedConns :: "string list"

text \<open>
  Modelled from the spec: \<^verbatim>\<open>peer.New\<close> (package \<^verbatim>\<open>internal/peer\<close> is not among the
  embedded files). The specification's peer entry starts with \<^verbatim>\<open>AmChoking\<close> true and both
  interest flags false; the counters, the allowed-fast set and the outbound queue start
  empty, the identity comes from the handshaked connection.
\<close>

definition peer_New :: "Conn \<Rightarrow> peer_Peer" where
  "peer_New c =
     \<lparr>ID = conn_ID c, IP = conn_IP c, FastExtension = conn_FastExtension c, AllowedFast = {},
      MetadataSize = 0, MetadataID = 0, AmChoking = True, PeerInterested = False,
      OptimisticUnchoked = False, BytesDownlaodedInChokePeriod = 0,
      BytesUploadedInChokePeriod = 0, Downloading = False, sent = [], closeCalls = 0\<rparr>"

subsection \<open>Choking\<close>


definition unchokePeer :: "peer_ref \<Rightarrow> torrent \<Rightarrow> torrent" where
  "unchokePeer pe t =
     (if AmChoking (heap t pe)
      then t\<lparr>heap := (heap t)(pe := SendMessage UnchokeMessage ((heap t pe)\<lparr>AmChoking := False\<rparr>))\<rparr>
      else t)"








subsection \<open>Dialing, registering and removing peers\<close>

text \<open>
  \<^verbatim>\<open>dialAddresses\<close>: while there is room for an outgoing handshaker, pop an address;
  an empty list asks the announcers for more peers and ends the loop, a connected address
  is skipped, any other address gets a handshaker and is recorded as connected.
\<close>

definition dial_room :: "torrent \<Rightarrow> bool" where
  "dial_room t \<longleftrightarrow>
     int (card (outgoingPeers t)) + int (card (outgoingHandshakers t)) < MaxPeerDial (config t)"

fun dial_loop :: "string list \<Rightarrow> torrent \<Rightarrow> torrent" where
  "dial_loop [] t =
     (if dial_room t then t\<lparr>addrList := [], needMorePeers := True\<rparr> else t\<lparr>addrList := []\<rparr>)"
| "dial_loop (ip # as) t =
     (if dial_room t
      then (if ip \<in> connectedPeerIPs t then dial_loop as t
            else dial_loop as
                   (t\<lparr>outgoingHandshakers := insert (nextRef t) (outgoingHandshakers t),
                      handshakerIP := (handshakerIP t)(nextRef t := ip),
                      connectedPeerIPs := insert ip (connectedPeerIPs t),
                      nextRef := Suc (nextRef t)\<rparr>))
      else t\<lparr>addrList := ip # as\<rparr>)"

definition dialAddresses :: "torrent \<Rightarrow> torrent" where
  "dialAddresses t = (if completed t then t else dial_loop (addrList t) t)"

definition closePieceDownloader :: "peer_ref \<Rightarrow> torrent \<Rightarrow> torrent" where
  "closePieceDownloader pe t =
     t\<lparr>pieceDownloaders := (pieceDownloaders t)(pe := None),
       pieceDownloadersSnubbed := (pieceDownloadersSnubbed t)(pe := None),
       pieceDownloadersChoked := (pieceDownloadersChoked t)(pe := None),
       heap := (heap t)(pe := (heap t pe)\<lparr>Downloading := False\<rparr>)\<rparr>"

definition closeInfoDownloader :: "peer_ref \<Rightarrow> torrent \<Rightarrow> torrent" where
  "closeInfoDownloader pe t =
     t\<lparr>infoDownloaders := infoDownloaders t - {pe},
       infoDownloadersSnubbed := infoDownloadersSnubbed t - {pe}\<rparr>"

definition closePeer :: "peer_ref \<Rightarrow> torrent \<Rightarrow> torrent" where
  "closePeer pe t =
     (let t1 = t\<lparr>heap := (heap t)(pe := Peer_Close (heap t pe))\<rparr>;
          t2 = (if pieceDownloaders t1 pe \<noteq> None then closePieceDownloader pe t1 else t1);
          t3 = (if pe \<in> infoDownloaders t2 then closeInfoDownloader pe t2 else t2);
          t4 = t3\<lparr>peers := peers t3 - {pe},
                  incomingPeers := incomingPeers t3 - {pe},
                  outgoingPeers := outgoingPeers t3 - {pe},
                  peersSnubbed := peersSnubbed t3 - {pe},
                  peerIDs := peerIDs t3 - {ID (heap t3 pe)},
                  connectedPeerIPs := connectedPeerIPs t3 - {IP (heap t3 pe)}\<rparr>
      in dialAddresses t4)"

text \<open>
  \<^verbatim>\<open>sendFirstMessage\<close>: have-all, have-none or the bitfield, then the extension
  handshake with the metadata size (0 while the info is unknown).
\<close>

definition sendFirstMessage :: "peer_ref \<Rightarrow> torrent \<Rightarrow> torrent" where
  "sendFirstMessage pe t =
     (let p = heap t pe;
          p1 = (case bitfield t of
                  None \<Rightarrow> if FastExtension p then SendMessage HaveNoneMessage p else p
                | Some bf \<Rightarrow>
                    if FastExtension p \<and> bf_All bf then SendMessage HaveAllMessage p
                    else if FastExtension p \<and> bf_Count bf = 0 then SendMessage HaveNoneMessage p
                    else SendMessage (BitfieldMessage (bf_bytes bf)) p);
          metadataSize = (case infoSize t of None \<Rightarrow> 0 | Some n \<Rightarrow> n)
      in t\<lparr>heap := (heap t)(pe := SendMessage (ExtensionHandshake metadataSize) p1)\<rparr>)"

text \<open>
  \<^verbatim>\<open>startPeer\<close>. \<open>incoming\<close> tells which of \<^verbatim>\<open>t.incomingPeers\<close> and \<^verbatim>\<open>t.outgoingPeers\<close>
  the caller passed. A connection whose peer id is already registered is closed; any
  other gets a new peer, which is registered, greeted and, when at most four peers are
  connected, unchoked.
\<close>

definition startPeer :: "Conn \<Rightarrow> bool \<Rightarrow> torrent \<Rightarrow> torrent" where
  "startPeer p incoming t =
     (if conn_ID p \<in> peerIDs t
      then dialAddresses (t\<lparr>closedConns := closedConns t @ [conn_IP p]\<rparr>)
      else
        (let pe = nextRef t;
             t1 = t\<lparr>peerIDs := insert (conn_ID p) (peerIDs t),
                    heap := (heap t)(pe := peer_New p),
                    nextRef := Suc (nextRef t),
                    peers := insert pe (peers t)\<rparr>;
             t2 = (if incoming then t1\<lparr>incomingPeers := insert pe (incomingPeers t1)\<rparr>
                   else t1\<lparr>outgoingPeers := insert pe (outgoingPeers t1)\<rparr>);
             t3 = sendFirstMessage pe t2
         in if card (peers t3) \<le> 4 then unchokePeer pe t3 else t3))"

subsection \<open>Accepting connections and handshake results\<close>

text \<open>
  The bodies of three cases of the \<^verbatim>\<open>select\<close> in \<^verbatim>\<open>run\<close>: \<^verbatim>\<open>incomingConnC\<close>,
  \<^verbatim>\<open>incomingHandshakerResultC\<close> and \<^verbatim>\<open>outgoingHandshakerResultC\<close>; the body of the case
  \<^verbatim>\<open>peerDisconnectedC\<close> is \<open>closePeer\<close>. An input carries what the body reads from outside
  the loop's state: the remote address of the connection and whether the blocklist blocks
  it; the handshaker and its result. A handshake result gives the error, or the peer id
  and the extensions of the handshaked connection.
\<close>

record handshake_result =
  hs_Error :: "string option"
  hs_PeerID :: nat
  hs_FastExtension :: bool

definition on_incomingConn :: "string \<Rightarrow> bool \<Rightarrow> torrent \<Rightarrow> torrent" where
  "on_incomingConn ip blocked t =
     (if MaxPeerAccept (config t)
           \<le> int (card (incomingHandshakers t)) + int (card (incomingPeers t))
      then t\<lparr>closedConns := closedConns t @ [ip]\<rparr>
      else if blocked then t\<lparr>closedConns := closedConns t @ [ip]\<rparr>
      else if ip \<in> connectedPeerIPs t then t\<lparr>closedConns := closedConns t @ [ip]\<rparr>
      else t\<lparr>incomingHandshakers := insert (nextRef t) (incomingHandshakers t),
             handshakerIP := (handshakerIP t)(nextRef t := ip),
             connectedPeerIPs := insert ip (connectedPeerIPs t),
             nextRef := Suc (nextRef t)\<rparr>)"

definition handshaked :: "nat \<Rightarrow> handshake_result \<Rightarrow> torrent \<Rightarrow> Conn" where
  "handshaked h r t =
     \<lparr>conn_ID = hs_PeerID r, conn_IP = handshakerIP t h, conn_FastExtension = hs_FastExtension r\<rparr>"

definition on_incomingHandshakerResult :: "nat \<Rightarrow> handshake_result \<Rightarrow> torrent \<Rightarrow> torrent" where
  "on_incomingHandshakerResult h r t =
     (let t1 = t\<lparr>incomingHandshakers := incomingHandshakers t - {h}\<rparr> in
      if hs_Error r \<noteq> None
      then t1\<lparr>connectedPeerIPs := connectedPeerIPs t1 - {handshakerIP t1 h}\<rparr>
      else startPeer (handshaked h r t1) True t1)"

definition on_outgoingHandshakerResult :: "nat \<Rightarrow> handshake_result \<Rightarrow> torrent \<Rightarrow> torrent" where
  "on_outgoingHandshakerResult h r t =
     (let t1 = t\<lparr>outgoingHandshakers := outgoingHandshakers t - {h}\<rparr> in
      if hs_Error r \<noteq> None
      then dialAddresses (t1\<lparr>connectedPeerIPs := connectedPeerIPs t1 - {handshakerIP t1 h}\<rparr>)
      else startPeer (handshaked h r t1) False t1)"

text \<open>
  Concrete inputs for the examples: a piece of two 2-byte blocks, a piece of twenty
  2-byte blocks, and a peer with the Fast extension whose allowed-fast set holds the
  index of both pieces.
\<close>

definition example_block :: "nat \<Rightarrow> nat \<Rightarrow> piece_Block" where
  "example_block l i = \<lparr>Block_Index = i, Block_Begin = i * l, Block_Length = l\<rparr>"

definition example_piece2 :: piece_Piece where
  "example_piece2 =
     \<lparr>Piece_Index = 3, Piece_Length = 4, Piece_Blocks = map (example_block 2) [0, 1]\<rparr>"

definition example_piece20 :: piece_Piece where
  "example_piece20 =
     \<lparr>Piece_Index = 3, Piece_Length = 40, Piece_Blocks = map (example_block 2) [0..<20]\<rparr>"

definition example_peer :: peer_Peer where
  "example_peer =
     \<lparr>ID = 1, IP = ''10.0.0.1'', FastExtension = True, AllowedFast = {3},
      MetadataSize = 40000, MetadataID = 2,
      AmChoking = True, PeerInterested = False, OptimisticUnchoked = False,
      BytesDownlaodedInChokePeriod = 0, BytesUploadedInChokePeriod = 0,
      Downloading = False, sent = [], closeCalls = 0\<rparr>"

text \<open>
  The downloader of the 2-block piece after its first request, and the inputs of a
  complete download of that piece.
\<close>

definition example_requested :: PieceDownloader where
  "example_requested = Run (PieceDownloader_New example_piece2 example_peer) [Limiter None]"



text \<open>
  Rejects of requests that the downloader has sent. \<open>example_reject pi j\<close> names block
  \<open>j\<close> of piece \<open>pi\<close>, with the begin and length of that block. \<open>example_piece0\<close> and
  \<open>example_piece1\<close> are the 2-block piece with the index 0 and 1.
\<close>

definition example_reject :: "piece_Piece \<Rightarrow> nat \<Rightarrow> peer_Request" where
  "example_reject pi j =
     \<lparr>Req_Piece = pi, Req_Begin = Block_Begin (Piece_Blocks pi ! j),
      Req_Length = Block_Length (Piece_Blocks pi ! j)\<rparr>"

definition example_piece0 :: piece_Piece where
  "example_piece0 = example_piece2\<lparr>Piece_Index := 0\<rparr>"

definition example_piece1 :: piece_Piece where
  "example_piece1 = example_piece2\<lparr>Piece_Index := 1\<rparr>"

text \<open>
  Concrete states of the event loop. \<open>empty_torrent\<close> has no peers, no handshakers and no
  bitfield. \<open>example_swarm\<close> has four interested peers with the download counters 3000,
  1000, 4000 and 2000, of which the second and the fourth are unchoked, and unchokes two
  peers per tick.
\<close>

definition empty_torrent :: torrent where
  "empty_torrent =
     \<lparr>config = \<lparr>UnchokedPeers = 2, MaxPeerDial = 10, MaxPeerAccept = 10\<rparr>,
      infoSize = None, bitfield = None,
      heap = (\<lambda>r. peer_New \<lparr>conn_ID = 0, conn_IP = [], conn_FastExtension = False\<rparr>),
      nextRef = 0, peers = {}, incomingPeers = {}, outgoingPeers = {}, peersSnubbed = {},
      pieceDownloaders = (\<lambda>pe. None), pieceDownloadersSnubbed = (\<lambda>pe. None),
      pieceDownloadersChoked = (\<lambda>pe. None), infoDownloaders = {},
      infoDownloadersSnubbed = {}, peerIDs = {}, connectedPeerIPs = {},
      incomingHandshakers = {}, outgoingHandshakers = {}, handshakerIP = (\<lambda>h. []),
      addrList = [], completed = False, needMorePeers = False, closedConns = []\<rparr>"



text \<open>
  Four turns of the event loop from \<open>empty_torrent\<close>. A connection from 10.0.0.1 is
  accepted (its handshaker is reference 0) and its handshake succeeds with peer id 7; a
  connection from 10.0.0.2 is accepted (its handshaker is reference 2):
  \<open>example_second_conn\<close>. In \<open>example_duplicate_id\<close> the second handshake succeeds with
  peer id 7 as well; in \<open>example_failed_handshake\<close> it fails instead.
\<close>

definition example_handshake :: handshake_result where
  "example_handshake = \<lparr>hs_Error = None, hs_PeerID = 7, hs_FastExtension = True\<rparr>"

definition example_second_conn :: torrent where
  "example_second_conn =
     on_incomingConn ''10.0.0.2'' False
       (on_incomingHandshakerResult 0 example_handshake
          (on_incomingConn ''10.0.0.1'' False empty_torrent))"

definition example_duplicate_id :: torrent where
  "example_duplicate_id = on_incomingHandshakerResult 2 example_handshake example_second_conn"

definition example_failed_handshake :: torrent where
  "example_failed_handshake =
     on_incomingHandshakerResult 2 (example_handshake\<lparr>hs_Error := Some ''timeout''\<rparr>)
       example_second_conn"

text \<open>
  The empty state with one known address, after \<^verbatim>\<open>dialAddresses\<close>: an outgoing
  handshaker (reference 0) dials 10.0.0.3.
\<close>

definition example_dialed :: torrent where
  "example_dialed = dialAddresses (empty_torrent\<lparr>addrList := [''10.0.0.3'']\<rparr>)"

text \<open>A handshaked connection with peer id 7.\<close>

definition example_conn :: Conn where
  "example_conn = \<lparr>conn_ID = 7, conn_IP = ''10.0.0.1'', conn_FastExtension = True\<rparr>"

section \<open>Properties of the piece downloader\<close>


lemma nextBlock_None: "nextBlock bs = None \<longleftrightarrow> (\<forall>b\<in>set bs. requested b)"
  by (induction bs) (auto split: option.splits)





































lemma reject_reads_piece_index_only:
  "Run_step d (RejectC \<lparr>Req_Piece = p, Req_Begin = b, Req_Length = l\<rparr>) =
   Run_step d (RejectC \<lparr>Req_Piece = p, Req_Begin = b', Req_Length = l'\<rparr>)"
  by (simp add: Run_step_def on_reject_def)

text \<open>
  Claim C4 at failing inputs. The reject branch subscripts the block array with the
  piece index of the rejected request. For the 2-block piece with index 3, the first
  request is sent and rejected: the subscript 3 is out of range, the goroutine panics,
  and the flag of the rejected block 0 is still set. For the 2-block piece with index 0,
  both requests are sent and the second one is rejected: the flag of block 0 is cleared,
  the flag of the rejected block 1 stays set, and the next token sends the request for
  block 0 again. For the 2-block piece with index 1, the first request is sent and
  rejected: the test reads the flag of block 1, which is clear, so the peer is closed
  although the rejected block had been requested.
\<close>

theorem reject_subscript_is_piece_index:
  "Piece_Index example_piece2 = 3 \<and> length (Piece_Blocks example_piece2) = 2 \<and>
   sent (Peer (Run (PieceDownloader_New example_piece2 example_peer) [Limiter None]))
     = [RequestMessage 3 0 2] \<and>
   example_reject example_piece2 0 = \<lparr>Req_Piece = example_piece2, Req_Begin = 0, Req_Length = 2\<rparr> \<and>
   status (Run (PieceDownloader_New example_piece2 example_peer)
             [Limiter None, RejectC (example_reject example_piece2 0)]) = Panicked \<and>
   map requested (blocks (Run (PieceDownloader_New example_piece2 example_peer)
             [Limiter None, RejectC (example_reject example_piece2 0)])) = [True, False] \<and>
   map requested (blocks (Run (PieceDownloader_New example_piece0 example_peer)
             [Limiter None, Limiter None])) = [True, True] \<and>
   example_reject example_piece0 1 = \<lparr>Req_Piece = example_piece0, Req_Begin = 2, Req_Length = 2\<rparr> \<and>
   status (Run (PieceDownloader_New example_piece0 example_peer)
             [Limiter None, Limiter None, RejectC (example_reject example_piece0 1)]) = Running \<and>
   map requested (blocks (Run (PieceDownloader_New example_piece0 example_peer)
             [Limiter None, Limiter None, RejectC (example_reject example_piece0 1)]))
     = [False, True] \<and>
   sent (Peer (Run (PieceDownloader_New example_piece0 example_peer)
             [Limiter None, Limiter None, RejectC (example_reject example_piece0 1), Limiter None]))
     = [RequestMessage 0 0 2, RequestMessage 0 2 2, RequestMessage 0 0 2] \<and>
   map requested (blocks (Run (PieceDownloader_New example_piece1 example_peer) [Limiter None]))
     = [True, False] \<and>
   status (Run (PieceDownloader_New example_piece1 example_peer)
             [Limiter None, RejectC (example_reject example_piece1 0)]) = Returned \<and>
   ErrC (Run (PieceDownloader_New example_piece1 example_peer)
             [Limiter None, RejectC (example_reject example_piece1 0)])
     = [''received invalid reject message''] \<and>
   closeCalls (Peer (Run (PieceDownloader_New example_piece1 example_peer)
             [Limiter None, RejectC (example_reject example_piece1 0)])) = 1"
  by code_simp


lemma example_requested_fields:
  "status example_requested = Running \<and> length (blocks example_requested) = 2 \<and>
   requested (blocks example_requested ! 0) \<and> \<not> requested (blocks example_requested ! Suc 0) \<and>
   data (blocks example_requested ! 0) = None \<and>
   FastExtension (Peer example_requested) \<and>
   Piece_Index (Piece example_requested) \<in> AllowedFast (Peer example_requested) \<and>
   closeCalls (Peer example_requested) = 0"
  by (simp add: example_requested_def PieceDownloader_New_def Run_step_def example_piece2_def
      example_peer_def example_block_def on_limiter_def maxQueuedBlocks_def SendRequest_def
      SendMessage_def Let_def)

lemma choked_no_requests:
  assumes "limiter d = None" "UnchokeC \<notin> set es"
  shows "limiter (Run d es) = None \<and> sent (Peer (Run d es)) = sent (Peer d)"
  using assms
proof (induction es arbitrary: d)
  case Nil
  then show ?case by simp
next
  case (Cons e es)
  have "limiter (Run_step d e) = None \<and> sent (Peer (Run_step d e)) = sent (Peer d)"
  proof (cases "status d = Running")
    case False
    with Cons.prems show ?thesis by (simp add: Run_step_def)
  next
    case True
    show ?thesis
    proof (cases e)
      case (Limiter err)
      with True Cons.prems show ?thesis by (simp add: Run_step_def)
    next
      case (PieceC pb dat)
      with True Cons.prems show ?thesis
        by (simp add: Run_step_def on_piece_def store_data_def Let_def)
    next
      case (RejectC req)
      with True Cons.prems show ?thesis
        by (simp add: Run_step_def on_reject_def Peer_Close_def Let_def)
    next
      case ChokeC
      with True Cons.prems show ?thesis by (simp add: Run_step_def on_choke_def)
    next
      case UnchokeC
      with Cons.prems show ?thesis by simp
    next
      case StopC
      with True Cons.prems show ?thesis by (simp add: Run_step_def)
    qed
  qed
  with Cons.IH[of "Run_step d e"] Cons.prems show ?case by simp
qed

text \<open>
  Claim C5, as amended. A running downloader that receives a choke clears the
  \<^verbatim>\<open>requested\<close> flag of every block that has no data yet (a block with data keeps its
  flag, and no data or descriptor changes), so that no block is outstanding, and sets
  \<^verbatim>\<open>limiter\<close> to \<^verbatim>\<open>nil\<close>: whatever inputs follow, no request is sent before the next
  unchoke. The downloader does this for every peer and piece; it makes no exception
  for a peer with the Fast extension or a piece of its allowed-fast set.
\<close>

theorem choke_clears_requested:
  assumes run: "status d = Running"
  shows "status (Run_step d ChokeC) = Running \<and>
         limiter (Run_step d ChokeC) = None \<and>
         Peer (Run_step d ChokeC) = Peer d \<and>
         length (blocks (Run_step d ChokeC)) = length (blocks d) \<and>
         (\<forall>i<length (blocks d).
            data (blocks (Run_step d ChokeC) ! i) = data (blocks d ! i) \<and>
            Block (blocks (Run_step d ChokeC) ! i) = Block (blocks d ! i) \<and>
            (requested (blocks (Run_step d ChokeC) ! i) \<longleftrightarrow>
               requested (blocks d ! i) \<and> data (blocks d ! i) \<noteq> None)) \<and>
         outstanding (Run_step d ChokeC) = 0 \<and>
         (\<forall>es. UnchokeC \<notin> set es \<longrightarrow>
            limiter (Run (Run_step d ChokeC) es) = None \<and>
            sent (Peer (Run (Run_step d ChokeC) es)) = sent (Peer d))"
proof -
  let ?f = "\<lambda>b. if data b = None \<and> requested b then b\<lparr>requested := False\<rparr> else b"
  have eq: "Run_step d ChokeC = d\<lparr>blocks := map ?f (blocks d), limiter := None\<rparr>"
    using run by (simp add: Run_step_def on_choke_def)
  have a: "status (Run_step d ChokeC) = Running" "limiter (Run_step d ChokeC) = None"
    "Peer (Run_step d ChokeC) = Peer d" "length (blocks (Run_step d ChokeC)) = length (blocks d)"
    using run by (simp_all add: eq)
  have b: "\<forall>i<length (blocks d).
            data (blocks (Run_step d ChokeC) ! i) = data (blocks d ! i) \<and>
            Block (blocks (Run_step d ChokeC) ! i) = Block (blocks d ! i) \<and>
            (requested (blocks (Run_step d ChokeC) ! i) \<longleftrightarrow>
               requested (blocks d ! i) \<and> data (blocks d ! i) \<noteq> None)"
    by (simp add: eq)
  have "filter (\<lambda>b. requested b \<and> data b = None) (map ?f bs) = []" for bs :: "block list"
    by (induction bs) auto
  then have c: "outstanding (Run_step d ChokeC) = 0" by (simp add: outstanding_def eq)
  have e: "\<forall>es. UnchokeC \<notin> set es \<longrightarrow>
            limiter (Run (Run_step d ChokeC) es) = None \<and>
            sent (Peer (Run (Run_step d ChokeC) es)) = sent (Peer d)"
    using choked_no_requests[OF a(2)] a(3) by simp
  from a b c e show ?thesis by (intro conjI) assumption+
qed


theorem choke_clears_requested_witness:
  "status example_requested = Running \<and>
   limiter (Run_step example_requested ChokeC) = None \<and>
   outstanding (Run_step example_requested ChokeC) = 0"
  using choke_clears_requested[of example_requested] example_requested_fields
  by simp

text \<open>
  The peer has the Fast extension and the piece is in its allowed-fast set; block 0 is
  requested and has no data. The choke clears its flag all the same.
\<close>

theorem choke_allowed_fast_not_preserved:
  "FastExtension (Peer example_requested) \<and>
   Piece_Index (Piece example_requested) \<in> AllowedFast (Peer example_requested) \<and>
   requested (blocks example_requested ! 0) \<and>
   data (blocks example_requested ! 0) = None \<and>
   \<not> requested (blocks (Run_step example_requested ChokeC) ! 0)"
  by (simp add: example_requested_def PieceDownloader_New_def Run_step_def example_piece2_def
      example_peer_def example_block_def on_limiter_def on_choke_def maxQueuedBlocks_def
      SendRequest_def SendMessage_def Let_def)

text \<open>
  Claim C3 at a failing input. A piece of twenty blocks; ten tokens are accepted and ten
  requests sent, so that ten blocks are outstanding and \<^verbatim>\<open>limiter\<close> is full. An
  unchoke arrives with no choke before it: \<^verbatim>\<open>limiter\<close> is replaced by an empty channel,
  ten more tokens are accepted, and twenty blocks are outstanding at once.
\<close>

theorem unchoke_resets_limiter_twenty_outstanding:
  "maxQueuedBlocks = 10 \<and>
   outstanding (Run (PieceDownloader_New example_piece20 example_peer)
     (replicate 10 (Limiter None))) = 10 \<and>
   outstanding (Run (PieceDownloader_New example_piece20 example_peer)
     (replicate 10 (Limiter None) @ [UnchokeC] @ replicate 10 (Limiter None))) = 20 \<and>
   status (Run (PieceDownloader_New example_piece20 example_peer)
     (replicate 10 (Limiter None) @ [UnchokeC] @ replicate 10 (Limiter None))) = Running"
  by code_simp

section \<open>Properties of the metadata downloader\<close>

lemma word_succ_unat: "x < (y::32 word) \<Longrightarrow> unat (x + 1) = Suc (unat x)"
proof -
  assume "x < y"
  then have "unat x < unat y" by (simp add: word_less_nat_alt)
  moreover have "unat y < 2 ^ 32" using unsigned_less[of y] by simp
  ultimately have "unat x + unat (1::32 word) < 2 ^ LENGTH(32)" by simp
  then have "unat (x + 1) = unat x + unat (1::32 word)" by (simp only: unat_add_lem)
  then show ?thesis by simp
qed

lemma word_succ_le: "x < (y::32 word) \<Longrightarrow> x + 1 \<le> i \<longleftrightarrow> x < i"
  by (simp add: word_le_nat_alt word_less_nat_alt word_succ_unat Suc_le_eq)

lemma word_less_succ: "x < (y::32 word) \<Longrightarrow> i < x + 1 \<longleftrightarrow> i \<le> x"
  by (simp add: word_le_nat_alt word_less_nat_alt word_succ_unat less_Suc_eq_le)

lemma min_step:
  "b < a \<Longrightarrow> int m < k \<Longrightarrow>
     Suc (min (a - Suc b) (nat (k - int (Suc m)))) = min (a - b) (nat (k - int m))"
  by arith

lemma issued_Suc: "issued c (Suc n) = c # issued (c + 1) n"
proof -
  have "map (\<lambda>j. c + of_nat j) [0..<Suc n] = (c + of_nat 0) # map (\<lambda>j. c + of_nat (Suc j)) [0..<n]"
    by (simp only: map_upt_Suc)
  then show ?thesis by (simp add: issued_def add.assoc add.commute)
qed

lemma issued_0: "issued c 0 = []" by (simp add: issued_def)

lemma RequestBlocks_body_fields:
  "nextBlockIndex (RequestBlocks_body d) = nextBlockIndex d + 1"
  "info_requested (RequestBlocks_body d) = insert (nextBlockIndex d) (info_requested d)"
  "info_blocks (RequestBlocks_body d) = info_blocks d"
  "info_Bytes (RequestBlocks_body d) = info_Bytes d"
  "sent (info_Peer (RequestBlocks_body d)) =
     sent (info_Peer d) @ [ExtensionMetadataRequest (MetadataID (info_Peer d)) (nextBlockIndex d)]"
  "MetadataID (info_Peer (RequestBlocks_body d)) = MetadataID (info_Peer d)"
  by (simp_all add: RequestBlocks_body_def SendMessage_def)

lemma RB_post_stop:
  assumes "\<not> RequestBlocks_cond k d"
  shows "RB_post k d d 0"
proof -
  have "min (unat (of_nat (length (info_blocks d)) :: 32 word) - unat (nextBlockIndex d))
                (nat (k - int (card (info_requested d)))) = 0"
    using assms by (auto simp add: RequestBlocks_cond_def word_less_nat_alt min_def)
  then show ?thesis by (simp add: RB_post_def issued_0)
qed

lemma RB_post_step:
  assumes c: "RequestBlocks_cond k d" and p: "RB_post k (RequestBlocks_body d) d' n"
  shows "RB_post k d d' (Suc n)"
proof -
  let ?c = "nextBlockIndex d" and ?R = "info_requested d"
  let ?L = "of_nat (length (info_blocks d)) :: 32 word"
  note F = RequestBlocks_body_fields[of d]
  from c have lt: "?c < ?L" and ck: "int (card ?R) < k" by (simp_all add: RequestBlocks_cond_def)
  have su: "unat (?c + 1) = Suc (unat ?c)" by (rule word_succ_unat[OF lt])
  have ul: "unat ?c < unat ?L" using lt by (simp add: word_less_nat_alt)
  from p have p1: "nextBlockIndex d' = ?c + 1 + of_nat n"
    and p2: "n = 0 \<or> unat (?c + 1) + n \<le> unat ?L"
    and p3: "sent (info_Peer d') = (sent (info_Peer d) @ [ExtensionMetadataRequest (MetadataID (info_Peer d)) ?c]) @
        map (ExtensionMetadataRequest (MetadataID (info_Peer d))) (issued (?c + 1) n)"
    and p4: "info_requested d' = insert ?c ?R \<union> set (issued (?c + 1) n)"
    and p5: "info_blocks d' = info_blocks d" "info_Bytes d' = info_Bytes d"
    and p6: "n \<le> nat (k - int (card (insert ?c ?R))) + card (insert ?c ?R \<inter> {i. ?c + 1 \<le> i})"
    and p7: "insert ?c ?R \<subseteq> {i. i < ?c + 1} \<longrightarrow>
        n = min (unat ?L - unat (?c + 1)) (nat (k - int (card (insert ?c ?R))))"
    unfolding RB_post_def F by simp_all
  have a1: "nextBlockIndex d' = ?c + of_nat (Suc n)" using p1 by (simp add: add.assoc add.commute)
  have a2: "unat ?c + Suc n \<le> unat ?L" using p2 su ul by auto
  have a3: "sent (info_Peer d') = sent (info_Peer d) @
        map (ExtensionMetadataRequest (MetadataID (info_Peer d))) (issued ?c (Suc n))"
    using p3 by (simp add: issued_Suc)
  have a4: "info_requested d' = ?R \<union> set (issued ?c (Suc n))"
    using p4 by (simp add: issued_Suc)
  have fin: "finite ?R" by simp
  have split: "{i. ?c \<le> i} = insert ?c {i. ?c + 1 \<le> i}"
  proof (rule set_eqI)
    fix i
    show "i \<in> {i. ?c \<le> i} \<longleftrightarrow> i \<in> insert ?c {i. ?c + 1 \<le> i}"
      using word_succ_le[OF lt, of i] by (metis insert_iff mem_Collect_eq order_le_less)
  qed
  have a6: "Suc n \<le> nat (k - int (card ?R)) + card (?R \<inter> {i. ?c \<le> i})"
  proof (cases "?c \<in> ?R")
    case True
    then have ins: "insert ?c ?R = ?R" by auto
    have "?R \<inter> {i. ?c \<le> i} = insert ?c (?R \<inter> {i. ?c + 1 \<le> i})"
      using True split by auto
    moreover have "?c \<notin> ?R \<inter> {i. ?c + 1 \<le> i}" using word_succ_le[OF lt, of ?c] by simp
    ultimately have "card (?R \<inter> {i. ?c \<le> i}) = Suc (card (?R \<inter> {i. ?c + 1 \<le> i}))"
      by (simp add: card_insert_if)
    with p6 ins show ?thesis by simp
  next
    case False
    then have cd: "card (insert ?c ?R) = Suc (card ?R)" by simp
    have "insert ?c ?R \<inter> {i. ?c + 1 \<le> i} = ?R \<inter> {i. ?c + 1 \<le> i}"
      using word_succ_le[OF lt, of ?c] by auto
    moreover have "card (?R \<inter> {i. ?c + 1 \<le> i}) \<le> card (?R \<inter> {i. ?c \<le> i})"
      by (rule card_mono) (auto simp: split)
    ultimately show ?thesis using p6 cd ck by simp
  qed
  have a7: "?R \<subseteq> {i. i < ?c} \<longrightarrow>
        Suc n = min (unat ?L - unat ?c) (nat (k - int (card ?R)))"
  proof
    assume sub: "?R \<subseteq> {i. i < ?c}"
    then have notin: "?c \<notin> ?R" by auto
    then have cd: "card (insert ?c ?R) = Suc (card ?R)" by simp
    have "insert ?c ?R \<subseteq> {i. i < ?c + 1}"
      using sub word_less_succ[OF lt] by (auto simp: order_less_imp_le)
    with p7 have "n = min (unat ?L - unat (?c + 1)) (nat (k - int (card (insert ?c ?R))))" by blast
    then have "Suc n = Suc (min (unat ?L - Suc (unat ?c)) (nat (k - int (Suc (card ?R)))))"
      by (simp only: su cd)
    also have "\<dots> = min (unat ?L - unat ?c) (nat (k - int (card ?R)))"
      by (rule min_step[OF ul ck])
    finally show "Suc n = min (unat ?L - unat ?c) (nat (k - int (card ?R)))" .
  qed
  show ?thesis
    unfolding RB_post_def using a1 a2 a3 a4 p5 a6 a7 by blast
qed

lemma RequestBlocks_post:
  "\<exists>n. RB_post k d (RequestBlocks k d) n \<and> \<not> RequestBlocks_cond k (RequestBlocks k d)"
proof (induction k d rule: RequestBlocks.induct)
  case (1 k d)
  show ?case
  proof (cases "RequestBlocks_cond k d")
    case True
    from 1[OF True] obtain n where
      n: "RB_post k (RequestBlocks_body d) (RequestBlocks k (RequestBlocks_body d)) n"
      and st: "\<not> RequestBlocks_cond k (RequestBlocks k (RequestBlocks_body d))" by blast
    have eq: "RequestBlocks k d = RequestBlocks k (RequestBlocks_body d)"
      using True by (simp add: RequestBlocks.simps[of k d])
    from RB_post_step[OF True n] st show ?thesis unfolding eq by blast
  next
    case False
    then have eq: "RequestBlocks k d = d" by (simp add: RequestBlocks.simps[of k d])
    from RB_post_stop[OF False] False show ?thesis unfolding eq by blast
  qed
qed


lemma unat_issued_nth:
  assumes "unat c + n \<le> unat (L::32 word)" "j < n"
  shows "unat (c + of_nat j :: 32 word) = unat c + j"
proof -
  have L: "unat L < 2 ^ 32" using unsigned_less[of L] by simp
  with assms have j: "j < 2 ^ 32" by simp
  then have uj: "unat (of_nat j :: 32 word) = j" by (simp add: unat_of_nat)
  have "unat c + unat (of_nat j :: 32 word) < 2 ^ LENGTH(32)" using assms L uj by simp
  then have "unat (c + of_nat j) = unat c + unat (of_nat j :: 32 word)"
    by (simp only: unat_add_lem)
  with uj show ?thesis by simp
qed

lemma map_unat_issued:
  assumes "n = 0 \<or> unat c + n \<le> unat (L::32 word)"
  shows "map unat (issued c n) = [unat c ..< unat c + n]"
proof (cases "n = 0")
  case True
  then show ?thesis by (simp add: issued_def)
next
  case False
  with assms have le: "unat c + n \<le> unat L" by simp
  show ?thesis
  proof (rule nth_equalityI)
    show "length (map unat (issued c n)) = length [unat c ..< unat c + n]"
      by (simp add: issued_def)
  next
    fix j assume "j < length (map unat (issued c n))"
    then have j: "j < n" by (simp add: issued_def)
    with unat_issued_nth[OF le j]
    show "map unat (issued c n) ! j = [unat c ..< unat c + n] ! j"
      by (simp add: issued_def)
  qed
qed

lemma issued_below:
  assumes "n = 0 \<or> unat c + n \<le> unat (L::32 word)" "i \<in> set (issued c n)"
  shows "i < L"
proof -
  from assms(2) obtain j where j: "j < n" "i = c + of_nat j" by (auto simp: issued_def)
  with assms(1) have le: "unat c + n \<le> unat L" by auto
  from unat_issued_nth[OF le j(1)] j le show ?thesis by (simp add: word_less_nat_alt)
qed

text \<open>
  Claim C8. For every state \<open>d\<close> of the metadata downloader and every \<open>k\<close>,
  \<^verbatim>\<open>RequestBlocks(k)\<close> returns, and there is a number \<open>n\<close> of at most \<open>k\<close> requests
  (none when \<open>k \<le> 0\<close>) such that: the indices requested are the \<open>n\<close> consecutive block
  indices from the cursor, in strictly ascending order and without wrap-around, each
  below \<^verbatim>\<open>uint32(len(d.blocks))\<close>; exactly these requests are appended to the peer's
  outbound queue, in that order, with the peer's metadata extension id; each index is
  added to \<^verbatim>\<open>requested\<close>; the cursor advances by \<open>n\<close>; and on return the cursor is at
  the end or \<^verbatim>\<open>requested\<close> holds at least \<open>k\<close> indices. When every index in flight lies
  before the cursor (as in every state the downloader reaches), \<open>n\<close> is the smaller of
  the number of blocks left and \<open>k\<close> minus the number in flight.
\<close>

theorem RequestBlocks_ascending_up_to_k:
  "\<exists>n. n \<le> nat k \<and>
        map unat (issued (nextBlockIndex d) n)
          = [unat (nextBlockIndex d) ..< unat (nextBlockIndex d) + n] \<and>
        (\<forall>i \<in> set (issued (nextBlockIndex d) n). i < of_nat (length (info_blocks d))) \<and>
        sent (info_Peer (RequestBlocks k d)) = sent (info_Peer d) @
          map (ExtensionMetadataRequest (MetadataID (info_Peer d))) (issued (nextBlockIndex d) n) \<and>
        info_requested (RequestBlocks k d) = info_requested d \<union> set (issued (nextBlockIndex d) n) \<and>
        nextBlockIndex (RequestBlocks k d) = nextBlockIndex d + of_nat n \<and>
        \<not> RequestBlocks_cond k (RequestBlocks k d) \<and>
        (info_requested d \<subseteq> {i. i < nextBlockIndex d} \<longrightarrow>
           n = min (unat (of_nat (length (info_blocks d)) :: 32 word) - unat (nextBlockIndex d))
                   (nat (k - int (card (info_requested d)))))"
proof -
  let ?c = "nextBlockIndex d" and ?R = "info_requested d"
  let ?L = "of_nat (length (info_blocks d)) :: 32 word"
  have "\<exists>n. n \<le> nat k \<and> RB_post k d (RequestBlocks k d) n \<and>
            \<not> RequestBlocks_cond k (RequestBlocks k d)"
  proof (cases "RequestBlocks_cond k d")
    case False
    then have eq: "RequestBlocks k d = d" by (simp add: RequestBlocks.simps[of k d])
    from RB_post_stop[OF False] False show ?thesis unfolding eq by (intro exI[of _ 0]) simp
  next
    case True
    then have ck: "int (card ?R) < k" by (simp add: RequestBlocks_cond_def)
    from RequestBlocks_post[of k d] obtain n where
      n: "RB_post k d (RequestBlocks k d) n" and st: "\<not> RequestBlocks_cond k (RequestBlocks k d)"
      by blast
    from n have "n \<le> nat (k - int (card ?R)) + card (?R \<inter> {i. ?c \<le> i})"
      by (simp add: RB_post_def)
    moreover have "card (?R \<inter> {i. ?c \<le> i}) \<le> card ?R"
      by (rule card_mono) simp_all
    ultimately have "n \<le> nat k" using ck by linarith
    with n st show ?thesis by blast
  qed
  then obtain n where nk: "n \<le> nat k" and n: "RB_post k d (RequestBlocks k d) n"
    and st: "\<not> RequestBlocks_cond k (RequestBlocks k d)" by blast
  from n have rng: "n = 0 \<or> unat ?c + n \<le> unat ?L" by (simp add: RB_post_def)
  have a: "map unat (issued ?c n) = [unat ?c ..< unat ?c + n]"
    by (rule map_unat_issued[OF rng])
  have b: "\<forall>i \<in> set (issued ?c n). i < ?L"
    using issued_below[OF rng] by blast
  from n have c: "sent (info_Peer (RequestBlocks k d)) = sent (info_Peer d) @
          map (ExtensionMetadataRequest (MetadataID (info_Peer d))) (issued ?c n)"
    and e: "info_requested (RequestBlocks k d) = ?R \<union> set (issued ?c n)"
    and f: "nextBlockIndex (RequestBlocks k d) = ?c + of_nat n"
    and g: "?R \<subseteq> {i. i < ?c} \<longrightarrow>
           n = min (unat ?L - unat ?c) (nat (k - int (card ?R)))"
    by (simp_all add: RB_post_def)
  from nk a b c e f st g show ?thesis by (intro exI[of _ n] conjI) assumption+
qed


lemma example_createBlocks:
  "createBlocks example_peer =
     [\<lparr>block_size = 16384\<rparr>, \<lparr>block_size = 16384\<rparr>, \<lparr>block_size = 7232\<rparr>]"
  by code_simp

lemma example_info_fields:
  "nextBlockIndex (InfoDownloader_New example_peer) = 0 \<and>
   info_requested (InfoDownloader_New example_peer) = {} \<and>
   length (info_blocks (InfoDownloader_New example_peer)) = 3 \<and>
   sent (info_Peer (InfoDownloader_New example_peer)) = [] \<and>
   MetadataID (info_Peer (InfoDownloader_New example_peer)) = 2"
  by (simp add: InfoDownloader_New_def example_createBlocks) (simp add: example_peer_def)

theorem RequestBlocks_ascending_up_to_k_witness:
  "info_requested (InfoDownloader_New example_peer)
     \<subseteq> {i. i < nextBlockIndex (InfoDownloader_New example_peer)} \<and>
   nextBlockIndex (RequestBlocks 2 (InfoDownloader_New example_peer)) = 2 \<and>
   sent (info_Peer (RequestBlocks 2 (InfoDownloader_New example_peer)))
     = [ExtensionMetadataRequest 2 0, ExtensionMetadataRequest 2 1] \<and>
   info_requested (RequestBlocks 2 (InfoDownloader_New example_peer)) = {0, 1}"
proof -
  let ?d = "InfoDownloader_New example_peer"
  note F = example_info_fields
  have sub: "info_requested ?d \<subseteq> {i. i < nextBlockIndex ?d}" using F by simp
  from RequestBlocks_ascending_up_to_k[of 2 ?d] obtain n where
    s: "sent (info_Peer (RequestBlocks 2 ?d)) = sent (info_Peer ?d) @
          map (ExtensionMetadataRequest (MetadataID (info_Peer ?d))) (issued (nextBlockIndex ?d) n)"
    and r: "info_requested (RequestBlocks 2 ?d) = info_requested ?d \<union> set (issued (nextBlockIndex ?d) n)"
    and x: "nextBlockIndex (RequestBlocks 2 ?d) = nextBlockIndex ?d + of_nat n"
    and m: "info_requested ?d \<subseteq> {i. i < nextBlockIndex ?d} \<longrightarrow>
           n = min (unat (of_nat (length (info_blocks ?d)) :: 32 word) - unat (nextBlockIndex ?d))
                   (nat (2 - int (card (info_requested ?d))))"
    by blast
  from m sub F have n: "n = 2" by simp
  have i: "issued (0::32 word) 2 = [0, 1]" by (simp add: issued_def numeral_2_eq_2)
  from s r x sub show ?thesis unfolding n by (simp add: F i insert_commute)
qed

section \<open>Properties of the peer connection\<close>

lemma peer_inv_New: "peer_inv PeerConn_New"
  by (simp add: peer_inv_def PeerConn_New_def)

lemma peer_inv_step: "peer_inv p \<Longrightarrow> peer_inv (peer_step p a)"
proof (cases "panicked p")
  case True
  assume "peer_inv p"
  with True show ?thesis by (simp add: peer_step_def)
next
  case False
  assume inv: "peer_inv p"
  show ?thesis
  proof (cases a)
    case CallClose
    with inv False show ?thesis by (auto simp: peer_step_def peer_inv_def)
  next
    case CloseReturns
    with inv False show ?thesis by (auto simp: peer_step_def peer_inv_def)
  next
    case StartRun
    with inv False show ?thesis by (auto simp: peer_step_def peer_inv_def)
  next
    case ReaderExits
    with inv False show ?thesis by (auto simp: peer_step_def peer_inv_def)
  next
    case WriterExits
    with inv False show ?thesis by (auto simp: peer_step_def peer_inv_def)
  next
    case SelectCloseC
    with inv False show ?thesis by (auto simp: peer_step_def peer_inv_def)
  next
    case SelectReaderDone
    with inv False show ?thesis by (auto simp: peer_step_def peer_inv_def)
  next
    case SelectWriterDone
    with inv False show ?thesis by (auto simp: peer_step_def peer_inv_def)
  next
    case RunProceeds
    with inv False show ?thesis
      by (cases "pc p") (auto simp: peer_step_def peer_inv_def run_proceeds_def)
  qed
qed

lemma peer_inv_run: "peer_inv p \<Longrightarrow> peer_inv (peer_run p as)"
  by (induction as arbitrary: p) (simp_all add: peer_inv_step)

text \<open>
  Claim C9, as amended. \<^verbatim>\<open>Close\<close> is to be called once. In every interleaving of the
  calls of \<^verbatim>\<open>Close\<close> with \<^verbatim>\<open>Run\<close> and its two tasks: a call of \<^verbatim>\<open>Close\<close> has
  returned only if \<^verbatim>\<open>Run\<close> has closed the connection and both the reader and the writer
  task have exited; at most one call ever gets past \<^verbatim>\<open>close(p.closeC)\<close>; the first call
  does not panic; and any call made once \<^verbatim>\<open>closeC\<close> is closed panics, whether the first
  call is still waiting or has returned.
\<close>

theorem Close_once_waits_for_tasks:
  "(0 < returned (peer_run PeerConn_New as) \<longrightarrow>
      0 < connCloses (peer_run PeerConn_New as) \<and>
      readerDone (peer_run PeerConn_New as) \<and> writerDone (peer_run PeerConn_New as) \<and>
      closedC (peer_run PeerConn_New as)) \<and>
   waiting (peer_run PeerConn_New as) + returned (peer_run PeerConn_New as) \<le> 1 \<and>
   (closeC (peer_run PeerConn_New as) \<and> \<not> panicked (peer_run PeerConn_New as) \<longrightarrow>
      panicked (peer_step (peer_run PeerConn_New as) CallClose)) \<and>
   (\<not> closeC (peer_run PeerConn_New as) \<longrightarrow>
      \<not> panicked (peer_step (peer_run PeerConn_New as) CallClose) \<and>
      closeC (peer_step (peer_run PeerConn_New as) CallClose) \<and>
      returned (peer_step (peer_run PeerConn_New as) CallClose) = 0)"
proof -
  define p where "p = peer_run PeerConn_New as"
  have inv: "peer_inv p" unfolding p_def by (rule peer_inv_run[OF peer_inv_New])
  have a: "0 < returned p \<longrightarrow> 0 < connCloses p \<and> readerDone p \<and> writerDone p \<and> closedC p"
    using inv by (auto simp: peer_inv_def)
  have b: "waiting p + returned p \<le> 1" using inv by (simp add: peer_inv_def)
  have c: "closeC p \<and> \<not> panicked p \<longrightarrow> panicked (peer_step p CallClose)"
    by (simp add: peer_step_def)
  have d: "\<not> closeC p \<longrightarrow> \<not> panicked (peer_step p CallClose) \<and> closeC (peer_step p CallClose) \<and>
      returned (peer_step p CallClose) = 0"
    using inv by (auto simp: peer_step_def peer_inv_def)
  show ?thesis unfolding p_def[symmetric] by (rule conjI[OF a conjI[OF b conjI[OF c d]]])
qed

lemma example_shutdown_state:
  "peer_run PeerConn_New example_shutdown =
     \<lparr>closeC = True, closedC = True, connCloses = 1, readerDone = True,
      writerDone = True, pc = RunDone, waiting = 0, returned = 1, panicked = False\<rparr>"
  by (simp add: example_shutdown_def PeerConn_New_def peer_step_def run_proceeds_def)

theorem Close_once_waits_for_tasks_witness:
  "0 < returned (peer_run PeerConn_New example_shutdown) \<and>
   connCloses (peer_run PeerConn_New example_shutdown) = 1 \<and>
   readerDone (peer_run PeerConn_New example_shutdown) \<and>
   writerDone (peer_run PeerConn_New example_shutdown) \<and>
   closeC (peer_run PeerConn_New example_shutdown) \<and>
   \<not> panicked (peer_run PeerConn_New example_shutdown) \<and>
   panicked (peer_step (peer_run PeerConn_New example_shutdown) CallClose)"
  using Close_once_waits_for_tasks[of example_shutdown]
  by (simp add: example_shutdown_state)

text \<open>
  After an orderly shutdown, in which the first call of \<^verbatim>\<open>Close\<close> has returned, a second
  call panics: \<^verbatim>\<open>Close\<close> is not idempotent.
\<close>

theorem second_Close_panics:
  "returned (peer_run PeerConn_New example_shutdown) = 1 \<and>
   \<not> panicked (peer_run PeerConn_New example_shutdown) \<and>
   panicked (peer_run PeerConn_New (example_shutdown @ [CallClose]))"
  by (simp add: example_shutdown_def PeerConn_New_def peer_step_def run_proceeds_def)

section \<open>Properties of the engine\<close>




lemma unchokePeer_self: "\<not> AmChoking (heap (unchokePeer q t) q)"
  by (simp add: unchokePeer_def SendMessage_def)



















text \<open>
  Claim C10. \<^verbatim>\<open>startPeer\<close> is given a connection whose peer id is not registered. It
  registers a new peer for it, and when the number of connected peers, the new one
  included, is at most four, the new peer is unchoked within \<^verbatim>\<open>startPeer\<close> itself:
  \<^verbatim>\<open>AmChoking\<close> is false and an unchoke message, the only one, is the last message
  queued for it. With more than four peers the new peer stays choked and no unchoke
  message is queued.
\<close>

theorem startPeer_unchokes_first_four:
  assumes new: "conn_ID p \<notin> peerIDs t"
  shows "nextRef t \<in> peers (startPeer p incoming t) \<and>
         conn_ID p \<in> peerIDs (startPeer p incoming t) \<and>
         ID (heap (startPeer p incoming t) (nextRef t)) = conn_ID p \<and>
         IP (heap (startPeer p incoming t) (nextRef t)) = conn_IP p \<and>
         (card (peers (startPeer p incoming t)) \<le> 4 \<longrightarrow>
            \<not> AmChoking (heap (startPeer p incoming t) (nextRef t)) \<and>
            (\<exists>ms. sent (heap (startPeer p incoming t) (nextRef t)) = ms @ [UnchokeMessage] \<and>
                  UnchokeMessage \<notin> set ms)) \<and>
         (\<not> card (peers (startPeer p incoming t)) \<le> 4 \<longrightarrow>
            AmChoking (heap (startPeer p incoming t) (nextRef t)) \<and>
            UnchokeMessage \<notin> set (sent (heap (startPeer p incoming t) (nextRef t))))"
proof -
  let ?pe = "nextRef t"
  define t1 where "t1 = t\<lparr>peerIDs := insert (conn_ID p) (peerIDs t),
                    heap := (heap t)(?pe := peer_New p),
                    nextRef := Suc (nextRef t),
                    peers := insert ?pe (peers t)\<rparr>"
  define t2 where "t2 = (if incoming then t1\<lparr>incomingPeers := insert ?pe (incomingPeers t1)\<rparr>
                   else t1\<lparr>outgoingPeers := insert ?pe (outgoingPeers t1)\<rparr>)"
  define t3 where "t3 = sendFirstMessage ?pe t2"
  have sp: "startPeer p incoming t = (if card (peers t3) \<le> 4 then unchokePeer ?pe t3 else t3)"
    using new by (simp add: startPeer_def Let_def t1_def t2_def t3_def)
  have h2: "heap t2 ?pe = peer_New p" "peers t2 = insert ?pe (peers t)"
    "peerIDs t2 = insert (conn_ID p) (peerIDs t)"
    by (simp_all add: t2_def t1_def)
  have p3: "peers t3 = insert ?pe (peers t)" "peerIDs t3 = insert (conn_ID p) (peerIDs t)"
    by (simp_all add: t3_def sendFirstMessage_def Let_def h2)
  have a3: "AmChoking (heap t3 ?pe)" "ID (heap t3 ?pe) = conn_ID p" "IP (heap t3 ?pe) = conn_IP p"
    by (simp_all add: t3_def sendFirstMessage_def Let_def h2 peer_New_def SendMessage_def
        split: option.splits)
  have s3: "UnchokeMessage \<notin> set (sent (heap t3 ?pe))"
    by (simp add: t3_def sendFirstMessage_def Let_def h2 peer_New_def SendMessage_def
        split: option.splits)
  have pu: "peers (unchokePeer ?pe t3) = peers t3" "peerIDs (unchokePeer ?pe t3) = peerIDs t3"
    by (simp_all add: unchokePeer_def)
  have cp: "peers (startPeer p incoming t) = peers t3" "peerIDs (startPeer p incoming t) = peerIDs t3"
    by (simp_all add: sp pu)
  have hu: "heap (unchokePeer ?pe t3) ?pe
              = (heap t3 ?pe)\<lparr>AmChoking := False, sent := sent (heap t3 ?pe) @ [UnchokeMessage]\<rparr>"
    using a3(1) by (simp add: unchokePeer_def SendMessage_def)
  show ?thesis
  proof (cases "card (peers t3) \<le> 4")
    case True
    then have e: "startPeer p incoming t = unchokePeer ?pe t3" by (simp add: sp)
    have "\<exists>ms. sent (heap (unchokePeer ?pe t3) ?pe) = ms @ [UnchokeMessage] \<and>
                  UnchokeMessage \<notin> set ms"
      using s3 by (simp add: hu)
    with True a3 show ?thesis unfolding cp unfolding e by (simp add: p3 hu)
  next
    case False
    then have e: "startPeer p incoming t = t3" by (simp add: sp)
    with False a3 s3 show ?thesis unfolding cp unfolding e by (simp add: p3)
  qed
qed


lemma example_startPeer:
  "conn_ID example_conn \<notin> peerIDs empty_torrent \<and>
   peers (startPeer example_conn True empty_torrent) = {0} \<and>
   nextRef empty_torrent = 0 \<and>
   sent (heap (startPeer example_conn True empty_torrent) 0)
     = [HaveNoneMessage, ExtensionHandshake 0, UnchokeMessage]"
  by code_simp


theorem startPeer_unchokes_first_four_witness:
  "conn_ID example_conn \<notin> peerIDs empty_torrent \<and>
   card (peers (startPeer example_conn True empty_torrent)) \<le> 4 \<and>
   \<not> AmChoking (heap (startPeer example_conn True empty_torrent) (nextRef empty_torrent)) \<and>
   sent (heap (startPeer example_conn True empty_torrent) 0)
     = [HaveNoneMessage, ExtensionHandshake 0, UnchokeMessage]"
proof -
  have new: "conn_ID example_conn \<notin> peerIDs empty_torrent" using example_startPeer by simp
  have c: "card (peers (startPeer example_conn True empty_torrent)) \<le> 4"
    using example_startPeer by simp
  from startPeer_unchokes_first_four[OF new, of True] c
  have "\<not> AmChoking (heap (startPeer example_conn True empty_torrent) (nextRef empty_torrent))"
    by blast
  with new c example_startPeer show ?thesis by simp
qed

lemma example_second_conn_state:
  "peers example_second_conn = {1} \<and> IP (heap example_second_conn 1) = ''10.0.0.1'' \<and>
   peerIDs example_second_conn = {7} \<and> incomingHandshakers example_second_conn = {2} \<and>
   handshakerIP example_second_conn 2 = ''10.0.0.2'' \<and>
   connectedPeerIPs example_second_conn = {''10.0.0.1'', ''10.0.0.2''} \<and>
   closedConns example_second_conn = []"
  by code_simp

lemma failed_handshake_forgets_ip:
  "peers example_failed_handshake = {1} \<and> peerIDs example_failed_handshake = {7} \<and>
   incomingHandshakers example_failed_handshake = {} \<and>
   connectedPeerIPs example_failed_handshake = {''10.0.0.1''}"
  by code_simp

lemma failed_dial_forgets_ip:
  "outgoingHandshakers example_dialed = {0} \<and>
   connectedPeerIPs example_dialed = {''10.0.0.3''} \<and>
   outgoingHandshakers
     (on_outgoingHandshakerResult 0 (example_handshake\<lparr>hs_Error := Some ''timeout''\<rparr>)
        example_dialed) = {} \<and>
   connectedPeerIPs
     (on_outgoingHandshakerResult 0 (example_handshake\<lparr>hs_Error := Some ''timeout''\<rparr>)
        example_dialed) = {}"
  by code_simp

lemma closePeer_forgets_ip:
  "peers (closePeer 1 example_failed_handshake) = {} \<and>
   peerIDs (closePeer 1 example_failed_handshake) = {} \<and>
   connectedPeerIPs (closePeer 1 example_failed_handshake) = {}"
  by code_simp

text \<open>
  Claim C7 at a failing input. Two connections from different addresses are accepted;
  each address is recorded in \<^verbatim>\<open>connectedPeerIPs\<close> when its handshaker starts. Both
  handshakes succeed with the same peer id. The first connection becomes a peer. The
  second is closed by \<^verbatim>\<open>startPeer\<close> as a duplicate, but its address stays in
  \<^verbatim>\<open>connectedPeerIPs\<close>: no handshaker is left, the only peer has the other address, and
  yet the id of the closed connection is in \<^verbatim>\<open>peerIDs\<close> and its address in
  \<^verbatim>\<open>connectedPeerIPs\<close>. The state is the one after four turns of the event loop, the
  bodies of the cases \<^verbatim>\<open>incomingConnC\<close> and \<^verbatim>\<open>incomingHandshakerResultC\<close> applied in
  turn to the empty state.
\<close>

theorem duplicate_id_leaks_ip:
  "(let t = on_incomingHandshakerResult 2 example_handshake
              (on_incomingConn ''10.0.0.2'' False
                 (on_incomingHandshakerResult 0 example_handshake
                    (on_incomingConn ''10.0.0.1'' False empty_torrent)))
    in peers t = {1} \<and> IP (heap t 1) = ''10.0.0.1'' \<and> peerIDs t = {7} \<and>
       incomingHandshakers t = {} \<and> outgoingHandshakers t = {} \<and>
       connectedPeerIPs t = {''10.0.0.1'', ''10.0.0.2''} \<and>
       closedConns t = [''10.0.0.2''])"
  by code_simp

text \<open>
  The address stays when the remaining peer disconnects, and a later connection from it
  is refused as a duplicate.
\<close>

lemma leaked_ip_refuses_connection:
  "peers (closePeer 1 example_duplicate_id) = {} \<and>
   peerIDs (closePeer 1 example_duplicate_id) = {} \<and>
   connectedPeerIPs (closePeer 1 example_duplicate_id) = {''10.0.0.2''} \<and>
   incomingHandshakers (on_incomingConn ''10.0.0.2'' False (closePeer 1 example_duplicate_id)) = {} \<and>
   closedConns (on_incomingConn ''10.0.0.2'' False (closePeer 1 example_duplicate_id))
     = [''10.0.0.2'', ''10.0.0.2'']"
  by code_simp

end
